theory Spec2Isabelle
  imports Main "HOL-Library.Word"
begin

unbundle bit_operations_syntax

section \<open>Data model of the CPU core\<close>

text \<open>
  The embedding follows devices/intel8086/80386_cpu.go (the core, its address
  generation, reset, mode switch, step driver and ModR/M operand access) and the
  opcode handlers of the file that defines \<open>mapOpCodes\<close>.  Go's fixed-width
  unsigned integers are words of the same width; \<open>int16\<close> shares the 16-bit
  representation of \<open>uint16\<close>, and a conversion between the two keeps the bits.
\<close>

type_synonym uint8 = "8 word"
type_synonym uint16 = "16 word"
type_synonym uint32 = "32 word"

text \<open>
  Everything that stops the Go program is a value: \<open>log.Fatal\<close>/\<open>log.Fatalf\<close>
  with its message, \<open>panic(0)\<close>, and the two run-time panics the modelled code can
  raise (slice index out of range, nil pointer dereference).
\<close>

datatype error = Fatal string | Panic | IndexOutOfRange | NilDereference

text \<open>
  The register tables of the source hold pointers (\<open>[]*uint8\<close>, \<open>[]*uint16\<close>).
  A pointer is nil, the address of one of the register fields, or the address of a
  local variable that escaped to the heap (\<open>&destValue\<close> in \<open>readRm8\<close>), which is
  a cell of the core's \<open>heap8\<close>/\<open>heap16\<close> list.
\<close>

datatype field8 = F_AL | F_CL | F_DL | F_BL | F_AH | F_CH | F_DH | F_BH

datatype field16 = F_AX | F_CX | F_DX | F_BX | F_SP | F_BP | F_SI | F_DI
  | F_ES | F_CS | F_SS | F_DS

datatype ptr8 = Null8 | Field8 field8 | Heap8 nat

datatype ptr16 = Null16 | Field16 field16 | Heap16 nat

text \<open>
  The declaration of \<open>CpuRegisters\<close> is not among the sources.  Its fields are
  taken from their uses: the 8-bit and 16-bit registers are separate fields
  (\<open>&cpuCore.registers.AL\<close>, \<open>&cpuCore.registers.AX\<close>), \<open>CS\<close> and \<open>IP\<close> are
  \<open>uint16\<close> (\<open>SetCS\<close>, \<open>SetIP\<close>), and the flags the handlers assign
  (\<open>core.registers.ZF = 1\<close>, \<open>core.registers.SF = uint16(...)\<close>) are \<open>uint16\<close>
  fields.
\<close>

record CpuRegisters =
  AL :: uint8
  CL :: uint8
  DL :: uint8
  BL :: uint8
  AH :: uint8
  CH :: uint8
  DH :: uint8
  BH :: uint8
  AX :: uint16
  CX :: uint16
  DX :: uint16
  BX :: uint16
  SP :: uint16
  BP :: uint16
  SI :: uint16
  DI :: uint16
  ES :: uint16
  CS :: uint16
  SS :: uint16
  DS :: uint16
  IP :: uint16
  CF :: uint16
  PF :: uint16
  ZF :: uint16
  SF :: uint16
  DF :: uint16
  OF :: uint16
  registers8Bit :: "ptr8 list"
  registers16Bit :: "ptr16 list"
  registersSegmentRegisters :: "ptr16 list"

record CpuExecutionFlags =
  CS_OVERRIDE :: uint16
  CS_OVERRIDE_ENABLE :: bool
  CR0 :: uint32

text \<open>
  The bus is an external device.  A message is a subject and a byte payload; the
  type of the subject is not in the sources and only its equality is used, so it
  is a type parameter.  The bus is modelled by the list of messages sent to it,
  oldest first.
\<close>

record 's BusMessage =
  Subject :: 's
  Data :: "uint8 list"

record 's Bus =
  sent :: "'s BusMessage list"

text \<open>
  The constants of package \<open>common\<close> are not among the sources; the functions
  that use them take them as a parameter.
\<close>

record 's common =
  MODULE_PRIMARY_PROCESSOR :: uint8
  MESSAGE_REQUEST_CPU_MODESWITCH :: 's
  MESSAGE_GLOBAL_CPU_MODESWITCH :: 's
  MESSAGE_GLOBAL_LOCK_BIOS_MEM_REGION :: 's

text \<open>
  The memory access controller is an external device as well.  It is modelled by
  a flat byte memory over 32-bit linear addresses and the trace of the accesses
  made through it, oldest first, so that "no memory access" is a statement about
  the trace.
\<close>

datatype MemAccess = Read8 uint32 | Read16 uint32
  | Write8 uint32 uint8 | Write16 uint32 uint16

record MemoryAccessController =
  memory :: "uint32 \<Rightarrow> uint8"
  accesses :: "MemAccess list"

text \<open>
  \<open>CpuCore\<close> as declared, without \<open>opCodeMap\<close> (the dispatcher is a parameter
  of \<open>Step\<close>) and \<open>ioPortAccessController\<close> (used by the port handlers only).
  \<open>heap8\<close> and \<open>heap16\<close> are not fields of the source: they hold the escaped
  local variables that heap pointers name.
\<close>

record 's CpuCore =
  partId :: uint8
  bus :: "'s Bus"
  memoryAccessController :: MemoryAccessController
  registers :: CpuRegisters
  mode :: uint8
  flags :: CpuExecutionFlags
  busId :: uint32
  currentlyExecutingInstructionPointer :: uint32
  lastExecutedInstructionPointer :: uint32
  currentByteAtCodePointer :: uint8
  heap8 :: "uint8 list"
  heap16 :: "uint16 list"

text \<open>
  \<open>New80386CPU\<close>: every field has Go's zero value, except the part id and the
  three pointer tables.  The bus and the memory controller are nil in the source
  until \<open>Init\<close> attaches them; here the two devices are arguments.
\<close>

definition New80386CPU :: "'s common \<Rightarrow> 's Bus \<Rightarrow> MemoryAccessController \<Rightarrow> 's CpuCore" where
  "New80386CPU k b m =
     \<lparr> partId = MODULE_PRIMARY_PROCESSOR k,
       bus = b,
       memoryAccessController = m,
       registers =
         \<lparr> AL = 0, CL = 0, DL = 0, BL = 0, AH = 0, CH = 0, DH = 0, BH = 0,
           AX = 0, CX = 0, DX = 0, BX = 0, SP = 0, BP = 0, SI = 0, DI = 0,
           ES = 0, CS = 0, SS = 0, DS = 0, IP = 0,
           CF = 0, PF = 0, ZF = 0, SF = 0, DF = 0, OF = 0,
           registers8Bit =
             [Field8 F_AL, Field8 F_CL, Field8 F_DL, Field8 F_BL,
              Field8 F_AH, Field8 F_CH, Field8 F_DH, Field8 F_BH],
           registers16Bit =
             [Field16 F_AX, Field16 F_CX, Field16 F_DX, Field16 F_BX,
              Field16 F_SP, Field16 F_BP, Field16 F_SI, Field16 F_DI],
           registersSegmentRegisters =
             [Field16 F_ES, Field16 F_CS, Field16 F_SS, Field16 F_DS] \<rparr>,
       mode = 0,
       flags = \<lparr> CS_OVERRIDE = 0, CS_OVERRIDE_ENABLE = False, CR0 = 0 \<rparr>,
       busId = 0,
       currentlyExecutingInstructionPointer = 0,
       lastExecutedInstructionPointer = 0,
       currentByteAtCodePointer = 0,
       heap8 = [],
       heap16 = [] \<rparr>"

section \<open>Register access, reset and address generation\<close>

definition SetCS :: "'s CpuCore \<Rightarrow> uint16 \<Rightarrow> 's CpuCore" where
  "SetCS core addr = core\<lparr>registers := (registers core)\<lparr>CS := addr\<rparr>\<rparr>"

definition SetIP :: "'s CpuCore \<Rightarrow> uint16 \<Rightarrow> 's CpuCore" where
  "SetIP core addr = core\<lparr>registers := (registers core)\<lparr>IP := addr\<rparr>\<rparr>"

definition GetIP :: "'s CpuCore \<Rightarrow> uint16" where
  "GetIP core = IP (registers core)"

definition GetCS :: "'s CpuCore \<Rightarrow> uint16" where
  "GetCS core = CS (registers core)"

definition SendMessage :: "'s Bus \<Rightarrow> 's BusMessage \<Rightarrow> 's Bus" where
  "SendMessage b msg = b\<lparr>sent := sent b @ [msg]\<rparr>"

definition Reset :: "'s common \<Rightarrow> 's CpuCore \<Rightarrow> 's CpuCore" where
  "Reset k core =
     (let core1 = core\<lparr>registers := (registers core)\<lparr>CS := 0xF000\<rparr>\<rparr>;
          core2 = core1\<lparr>registers := (registers core1)\<lparr>IP := 0xFFF0\<rparr>\<rparr>
      in core2\<lparr>bus := SendMessage (bus core2)
           \<lparr>Subject = MESSAGE_GLOBAL_LOCK_BIOS_MEM_REGION k, Data = []\<rparr>\<rparr>)"

text \<open>
  \<open>uint32(core.registers.CS<<4 + core.registers.IP)\<close>: both operands are
  \<open>uint16\<close>, so the shift and the sum are 16-bit operations, and the conversion
  to \<open>uint32\<close> is applied to their 16-bit result.
\<close>

definition GetCurrentCodePointer :: "'s CpuCore \<Rightarrow> uint32" where
  "GetCurrentCodePointer core =
     ucast (push_bit 4 (CS (registers core)) + IP (registers core))"

text \<open>\<open>BuildAddress\<close> does not use its receiver, which the model leaves out.\<close>

definition BuildAddress :: "uint16 \<Rightarrow> uint16 \<Rightarrow> uint32" where
  "BuildAddress segment address = ucast (push_bit 4 segment + address)"

section \<open>Memory accessors\<close>

text \<open>
  Modelled from the spec: the accessor methods \<open>ReadAddr8\<close>, \<open>ReadAddr16\<close>,
  \<open>WriteAddr8\<close>, \<open>WriteAddr16\<close> of the memory controller are not among the
  sources.  They read and write the flat byte memory without failing, 16-bit
  values little-endian (low byte at the address, high byte at the next one).
  Each call is recorded in the trace.
\<close>

definition ReadAddr8 :: "MemoryAccessController \<Rightarrow> uint32 \<Rightarrow> uint8 \<times> MemoryAccessController" where
  "ReadAddr8 m a = (memory m a, m\<lparr>accesses := accesses m @ [Read8 a]\<rparr>)"

definition ReadAddr16 :: "MemoryAccessController \<Rightarrow> uint32 \<Rightarrow> uint16 \<times> MemoryAccessController" where
  "ReadAddr16 m a =
     (ucast (memory m a) OR push_bit 8 (ucast (memory m (a + 1))),
      m\<lparr>accesses := accesses m @ [Read16 a]\<rparr>)"

definition WriteAddr8 :: "MemoryAccessController \<Rightarrow> uint32 \<Rightarrow> uint8 \<Rightarrow> MemoryAccessController" where
  "WriteAddr8 m a v =
     m\<lparr>memory := (memory m)(a := v), accesses := accesses m @ [Write8 a v]\<rparr>"

definition WriteAddr16 :: "MemoryAccessController \<Rightarrow> uint32 \<Rightarrow> uint16 \<Rightarrow> MemoryAccessController" where
  "WriteAddr16 m a v =
     m\<lparr>memory := (memory m)(a := ucast v, a + 1 := ucast (drop_bit 8 v)),
       accesses := accesses m @ [Write16 a v]\<rparr>"

text \<open>The same accesses made through the core's controller field.\<close>

definition coreReadAddr8 :: "'s CpuCore \<Rightarrow> uint32 \<Rightarrow> uint8 \<times> 's CpuCore" where
  "coreReadAddr8 core a =
     (case ReadAddr8 (memoryAccessController core) a of
        (v, m) \<Rightarrow> (v, core\<lparr>memoryAccessController := m\<rparr>))"

definition coreReadAddr16 :: "'s CpuCore \<Rightarrow> uint32 \<Rightarrow> uint16 \<times> 's CpuCore" where
  "coreReadAddr16 core a =
     (case ReadAddr16 (memoryAccessController core) a of
        (v, m) \<Rightarrow> (v, core\<lparr>memoryAccessController := m\<rparr>))"

definition coreWriteAddr8 :: "'s CpuCore \<Rightarrow> uint32 \<Rightarrow> uint8 \<Rightarrow> 's CpuCore" where
  "coreWriteAddr8 core a v =
     core\<lparr>memoryAccessController := WriteAddr8 (memoryAccessController core) a v\<rparr>"

definition coreWriteAddr16 :: "'s CpuCore \<Rightarrow> uint32 \<Rightarrow> uint16 \<Rightarrow> 's CpuCore" where
  "coreWriteAddr16 core a v =
     core\<lparr>memoryAccessController := WriteAddr16 (memoryAccessController core) a v\<rparr>"

text \<open>
  Modelled from the spec: the handlers advance the instruction pointer through
  \<open>core.memoryAccessController.SetIP\<close>, a method that is not among the sources;
  the spec gives it as the accessor's \<open>setIP(u16)\<close>, equivalent to the
  register-file operation.  It assigns the core's \<open>IP\<close> register and is no memory
  access.
\<close>

definition controllerSetIP :: "'s CpuCore \<Rightarrow> uint16 \<Rightarrow> 's CpuCore" where
  "controllerSetIP core addr = SetIP core addr"

section \<open>Mode switch and bus messages\<close>

text \<open>
  \<open>EnterMode\<close> assigns the mode and sends the announcement.  Its remaining
  statements only build and print a log line; printing is not modelled.
\<close>

definition EnterMode :: "'s common \<Rightarrow> 's CpuCore \<Rightarrow> uint8 \<Rightarrow> 's CpuCore" where
  "EnterMode k core m =
     (let core1 = core\<lparr>mode := m\<rparr>
      in core1\<lparr>bus := SendMessage (bus core1)
           \<lparr>Subject = MESSAGE_GLOBAL_CPU_MODESWITCH k, Data = [m]\<rparr>\<rparr>)"

text \<open>\<open>message.Data[0]\<close> panics on an empty payload.\<close>

definition OnReceiveMessage :: "'s common \<Rightarrow> 's CpuCore \<Rightarrow> 's BusMessage \<Rightarrow> error + 's CpuCore" where
  "OnReceiveMessage k device message =
     (if Subject message = MESSAGE_REQUEST_CPU_MODESWITCH k
      then (case Data message of
              [] \<Rightarrow> Inl IndexOutOfRange
            | b # _ \<Rightarrow> Inr (EnterMode k device b))
      else Inr device)"

section \<open>Step driver\<close>

text \<open>
  \<open>routeInstruction\<close> is not among the sources; \<open>Step\<close> takes it as a
  parameter.  It runs on the core and yields a status, or stops the program.
\<close>

definition Step :: "('s CpuCore \<Rightarrow> error + (int \<times> 's CpuCore)) \<Rightarrow> 's CpuCore \<Rightarrow> error + 's CpuCore" where
  "Step routeInstruction core =
     (let core1 = core\<lparr>currentlyExecutingInstructionPointer := GetCurrentCodePointer core\<rparr>
      in if currentlyExecutingInstructionPointer core1 = lastExecutedInstructionPointer core1
         then Inl (Fatal ''CPU appears to be in a loop! Did you forget to increment the IP register?'')
         else (case routeInstruction core1 of
                 Inl e \<Rightarrow> Inl e
               | Inr (status, core2) \<Rightarrow>
                   if status \<noteq> 0 then Inl Panic
                   else Inr (core2\<lparr>lastExecutedInstructionPointer :=
                                     currentlyExecutingInstructionPointer core2\<rparr>)))"

section \<open>ModR/M operand access\<close>

text \<open>
  The declaration of \<open>ModRm\<close> is not among the sources; its three fields are
  used as slice indices and are taken to be bytes.  The field \<open>mod\<close> of the
  source is \<open>mod'\<close> here.
\<close>

record ModRm =
  mod' :: uint8
  reg :: uint8
  rm :: uint8

text \<open>Indexing a Go slice panics outside its length.\<close>

definition index_slice :: "'a list \<Rightarrow> uint8 \<Rightarrow> error + 'a" where
  "index_slice xs i = (if unat i < length xs then Inr (xs ! unat i) else Inl IndexOutOfRange)"

fun field8_value :: "CpuRegisters \<Rightarrow> field8 \<Rightarrow> uint8" where
  "field8_value r F_AL = AL r"
| "field8_value r F_CL = CL r"
| "field8_value r F_DL = DL r"
| "field8_value r F_BL = BL r"
| "field8_value r F_AH = AH r"
| "field8_value r F_CH = CH r"
| "field8_value r F_DH = DH r"
| "field8_value r F_BH = BH r"

fun field16_value :: "CpuRegisters \<Rightarrow> field16 \<Rightarrow> uint16" where
  "field16_value r F_AX = AX r"
| "field16_value r F_CX = CX r"
| "field16_value r F_DX = DX r"
| "field16_value r F_BX = BX r"
| "field16_value r F_SP = SP r"
| "field16_value r F_BP = BP r"
| "field16_value r F_SI = SI r"
| "field16_value r F_DI = DI r"
| "field16_value r F_ES = ES r"
| "field16_value r F_CS = CS r"
| "field16_value r F_SS = SS r"
| "field16_value r F_DS = DS r"

text \<open>
  \<open>*p\<close>: a nil pointer panics.  A heap pointer always names an allocated cell
  in Go; the model gives the panic for a cell that does not exist.
\<close>

fun deref8 :: "'s CpuCore \<Rightarrow> ptr8 \<Rightarrow> error + uint8" where
  "deref8 core Null8 = Inl NilDereference"
| "deref8 core (Field8 f) = Inr (field8_value (registers core) f)"
| "deref8 core (Heap8 n) = (if n < length (heap8 core) then Inr (heap8 core ! n) else Inl NilDereference)"

fun deref16 :: "'s CpuCore \<Rightarrow> ptr16 \<Rightarrow> error + uint16" where
  "deref16 core Null16 = Inl NilDereference"
| "deref16 core (Field16 f) = Inr (field16_value (registers core) f)"
| "deref16 core (Heap16 n) = (if n < length (heap16 core) then Inr (heap16 core ! n) else Inl NilDereference)"

text \<open>\<open>&destValue\<close>: the local variable gets a fresh heap cell.\<close>

definition new8 :: "'s CpuCore \<Rightarrow> uint8 \<Rightarrow> ptr8 \<times> 's CpuCore" where
  "new8 core v = (Heap8 (length (heap8 core)), core\<lparr>heap8 := heap8 core @ [v]\<rparr>)"

definition new16 :: "'s CpuCore \<Rightarrow> uint16 \<Rightarrow> ptr16 \<times> 's CpuCore" where
  "new16 core v = (Heap16 (length (heap16 core)), core\<lparr>heap16 := heap16 core @ [v]\<rparr>)"

text \<open>
  The method \<open>modrm.getAddressMode16(core)\<close> is not among the sources.  The
  operand functions take \<open>uint32(modrm.getAddressMode16(core))\<close> as a parameter:
  it yields the linear address and the core it leaves, or stops the program.  The
  register-name strings the Go functions return next to the pointer serve the log
  lines only and are left out.
\<close>

type_synonym 's addressMode16 = "ModRm \<Rightarrow> 's CpuCore \<Rightarrow> error + (uint32 \<times> 's CpuCore)"

definition readRm8 :: "'s addressMode16 \<Rightarrow> 's CpuCore \<Rightarrow> ModRm \<Rightarrow> error + (ptr8 \<times> 's CpuCore)" where
  "readRm8 getAddressMode16 core modrm =
     (if mod' modrm = 3
      then (case index_slice (registers8Bit (registers core)) (rm modrm) of
              Inl e \<Rightarrow> Inl e
            | Inr dest \<Rightarrow> Inr (dest, core))
      else (case getAddressMode16 modrm core of
              Inl e \<Rightarrow> Inl e
            | Inr (addressMode, core1) \<Rightarrow>
                (case coreReadAddr8 core1 addressMode of
                   (destValue, core2) \<Rightarrow> Inr (new8 core2 destValue))))"

definition readRm16 :: "'s addressMode16 \<Rightarrow> 's CpuCore \<Rightarrow> ModRm \<Rightarrow> error + (ptr16 \<times> 's CpuCore)" where
  "readRm16 getAddressMode16 core modrm =
     (if mod' modrm = 3
      then (case index_slice (registers16Bit (registers core)) (rm modrm) of
              Inl e \<Rightarrow> Inl e
            | Inr dest \<Rightarrow> Inr (dest, core))
      else (case getAddressMode16 modrm core of
              Inl e \<Rightarrow> Inl e
            | Inr (addressMode, core1) \<Rightarrow>
                (case coreReadAddr16 core1 addressMode of
                   (destValue, core2) \<Rightarrow> Inr (new16 core2 destValue))))"

text \<open>
  With \<open>mod = 3\<close> the write functions assign the table slot itself
  (\<open>registers8Bit[modrm.rm] = value\<close>): the slot then holds the pointer passed in.
\<close>

definition writeRm8 :: "'s addressMode16 \<Rightarrow> 's CpuCore \<Rightarrow> ModRm \<Rightarrow> ptr8 \<Rightarrow> error + 's CpuCore" where
  "writeRm8 getAddressMode16 core modrm value =
     (if mod' modrm = 3
      then (if unat (rm modrm) < length (registers8Bit (registers core))
            then Inr (core\<lparr>registers := (registers core)
                        \<lparr>registers8Bit := (registers8Bit (registers core))[unat (rm modrm) := value]\<rparr>\<rparr>)
            else Inl IndexOutOfRange)
      else (case getAddressMode16 modrm core of
              Inl e \<Rightarrow> Inl e
            | Inr (addressMode, core1) \<Rightarrow>
                (case deref8 core1 value of
                   Inl e \<Rightarrow> Inl e
                 | Inr v \<Rightarrow> Inr (coreWriteAddr8 core1 addressMode v))))"

definition writeRm16 :: "'s addressMode16 \<Rightarrow> 's CpuCore \<Rightarrow> ModRm \<Rightarrow> ptr16 \<Rightarrow> error + 's CpuCore" where
  "writeRm16 getAddressMode16 core modrm value =
     (if mod' modrm = 3
      then (if unat (rm modrm) < length (registers16Bit (registers core))
            then Inr (core\<lparr>registers := (registers core)
                        \<lparr>registers16Bit := (registers16Bit (registers core))[unat (rm modrm) := value]\<rparr>\<rparr>)
            else Inl IndexOutOfRange)
      else (case getAddressMode16 modrm core of
              Inl e \<Rightarrow> Inl e
            | Inr (addressMode, core1) \<Rightarrow>
                (case deref16 core1 value of
                   Inl e \<Rightarrow> Inl e
                 | Inr v \<Rightarrow> Inr (coreWriteAddr16 core1 addressMode v))))"

section \<open>Opcode handlers\<close>

text \<open>
  Modelled from the spec: the helpers \<open>getMSB\<close> and \<open>getBitValue\<close> are not among
  the sources.  \<open>getMSB\<close> is bit 7 of the byte and \<open>getBitValue\<close> the bit at the
  given position, each as the number 0 or 1 (the handler converts both with
  \<open>uint16(...)\<close>).
\<close>

definition getMSB :: "uint8 \<Rightarrow> uint8" where
  "getMSB x = drop_bit 7 x AND 1"

definition getBitValue :: "uint8 \<Rightarrow> uint8 \<Rightarrow> uint8" where
  "getBitValue x i = drop_bit (unat i) x AND 1"

text \<open>
  The parity loop of \<open>INSTR_TEST_AL\<close>:
  \<open>for i := uint8(0); i < 8; i++ { PF ^= uint16(getBitValue(tmp, i)) }\<close>.
\<close>

function test_al_parity :: "uint8 \<Rightarrow> uint8 \<Rightarrow> uint16 \<Rightarrow> uint16" where
  "test_al_parity tmp i pf =
     (if i < 8 then test_al_parity tmp (i + 1) (pf XOR ucast (getBitValue tmp i)) else pf)"
  by pat_completeness auto
termination
proof (relation "measure (\<lambda>(tmp, i, pf). 8 - unat i)")
  show "wf (measure (\<lambda>(tmp :: uint8, i :: uint8, pf :: uint16). 8 - unat i))"
    by simp
next
  fix tmp i :: uint8 and pf :: uint16
  assume "i < 8"
  then have "unat i < 8"
    by (simp add: word_less_nat_alt)
  then have "unat (i + 1) = unat i + 1"
    by (simp add: unat_word_ariths)
  with \<open>unat i < 8\<close>
  show "((tmp, i + 1, pf XOR ucast (getBitValue tmp i)), (tmp, i, pf))
          \<in> measure (\<lambda>(tmp, i, pf). 8 - unat i)"
    by simp
qed

definition INSTR_TEST_AL :: "'s CpuCore \<Rightarrow> 's CpuCore" where
  "INSTR_TEST_AL core =
     (case coreReadAddr8 core (GetCurrentCodePointer core + 1) of
        (val, core1) \<Rightarrow>
          (let val2 = AL (registers core1);
               tmp = val AND val2;
               core2 = core1\<lparr>registers := (registers core1)\<lparr>SF := ucast (getMSB tmp)\<rparr>\<rparr>;
               core3 = (if tmp = 0
                        then core2\<lparr>registers := (registers core2)\<lparr>ZF := 1\<rparr>\<rparr>
                        else core2\<lparr>registers := (registers core2)\<lparr>ZF := 0\<rparr>\<rparr>);
               core4 = core3\<lparr>registers := (registers core3)\<lparr>PF := 1\<rparr>\<rparr>;
               core5 = core4\<lparr>registers := (registers core4)
                         \<lparr>PF := test_al_parity tmp 0 (PF (registers core4))\<rparr>\<rparr>;
               core6 = core5\<lparr>registers := (registers core5)\<lparr>CF := 0\<rparr>\<rparr>;
               core7 = core6\<lparr>registers := (registers core6)\<lparr>OF := 0\<rparr>\<rparr>
           in controllerSetIP core7 (GetIP core7 + 2)))"

text \<open>
  Modelled from the spec: \<open>consumeModRm\<close> is not among the sources.  It reads
  the byte that follows the opcode and splits it into \<open>mod\<close> (bits 7-6), \<open>reg\<close>
  (bits 5-3) and \<open>rm\<close> (bits 2-0); it leaves \<open>IP\<close> to the handler, which adds the
  two bytes itself.  \<open>INSTR_XCHG\<close> takes the decoder as a parameter, and this
  definition is the one used on concrete inputs.
\<close>

definition consumeModRm :: "'s CpuCore \<Rightarrow> error + (ModRm \<times> 's CpuCore)" where
  "consumeModRm core =
     (case coreReadAddr8 core (GetCurrentCodePointer core + 1) of
        (b, core1) \<Rightarrow>
          Inr (\<lparr>mod' = drop_bit 6 b AND 3, reg = drop_bit 3 b AND 7, rm = b AND 7\<rparr>, core1))"

text \<open>
  \<open>INSTR_XCHG\<close> reads its operands through \<open>registers16Bit[modrm.mod]\<close> and
  \<open>registers16Bit[modrm.reg]\<close> into the locals \<open>reg1\<close> and \<open>reg2\<close>, exchanges
  the locals, and sets \<open>IP\<close>.
\<close>

definition INSTR_XCHG :: "('s CpuCore \<Rightarrow> error + (ModRm \<times> 's CpuCore)) \<Rightarrow> 's CpuCore \<Rightarrow> error + 's CpuCore" where
  "INSTR_XCHG decode core =
     (case decode core of
        Inl e \<Rightarrow> Inl e
      | Inr (modrm, core1) \<Rightarrow>
          (case index_slice (registers16Bit (registers core1)) (mod' modrm) of
             Inl e \<Rightarrow> Inl e
           | Inr p1 \<Rightarrow>
          (case deref16 core1 p1 of
             Inl e \<Rightarrow> Inl e
           | Inr reg1 \<Rightarrow>
          (case index_slice (registers16Bit (registers core1)) (reg modrm) of
             Inl e \<Rightarrow> Inl e
           | Inr p2 \<Rightarrow>
          (case deref16 core1 p2 of
             Inl e \<Rightarrow> Inl e
           | Inr reg2 \<Rightarrow>
               (let tmp = reg2;
                    reg2' = reg1;
                    reg1' = tmp
                in Inr (controllerSetIP core1 (GetIP core1 + 2))))))))"

definition INSTR_CMP :: "'s CpuCore \<Rightarrow> error + 's CpuCore" where
  "INSTR_CMP core =
     (if 0x3C = currentByteAtCodePointer core
      then (case coreReadAddr8 core (GetCurrentCodePointer core + 1) of
              (src, core1) \<Rightarrow>
                (let dst = AL (registers core1);
                     core2 =
                       (if src = dst
                        then core1\<lparr>registers := (registers core1)\<lparr>ZF := 1, CF := 0\<rparr>\<rparr>
                        else if dst < src
                        then core1\<lparr>registers := (registers core1)\<lparr>ZF := 0, CF := 1\<rparr>\<rparr>
                        else if dst > src
                        then core1\<lparr>registers := (registers core1)\<lparr>ZF := 0, CF := 0\<rparr>\<rparr>
                        else core1)
                 in Inr (controllerSetIP core2 (GetIP core2 + 2))))
      else Inl (Fatal ''Unrecognised CMP instruction!''))"

text \<open>
  The two short conditional jumps.  \<open>int16(ReadAddr8(...))\<close> converts a
  \<open>uint8\<close>, which keeps its value (0..255); \<open>int16(core.registers.IP+2)\<close> and the
  final \<open>uint16(destAddr)\<close> keep the bits.
\<close>

definition INSTR_JZ_SHORT_REL8 :: "'s CpuCore \<Rightarrow> 's CpuCore" where
  "INSTR_JZ_SHORT_REL8 core =
     (case coreReadAddr8 core (GetCurrentCodePointer core + 1) of
        (b, core1) \<Rightarrow>
          (let offset = (ucast b :: uint16);
               destAddr = IP (registers core1) + 2;
               destAddr = destAddr + offset
           in if ZF (registers core1) = 0
              then controllerSetIP core1 destAddr
              else controllerSetIP core1 (GetIP core1 + 2)))"

definition INSTR_JNZ_SHORT_REL8 :: "'s CpuCore \<Rightarrow> 's CpuCore" where
  "INSTR_JNZ_SHORT_REL8 core =
     (case coreReadAddr8 core (GetCurrentCodePointer core + 1) of
        (b, core1) \<Rightarrow>
          (let offset = (ucast b :: uint16);
               destAddr = IP (registers core1) + 2;
               destAddr = destAddr + offset
           in if ZF (registers core1) \<noteq> 0
              then controllerSetIP core1 destAddr
              else controllerSetIP core1 (GetIP core1 + 2)))"

section \<open>Example constants and states\<close>

text \<open>
  A choice of distinct bus subjects, a memory holding given bytes (zero
  elsewhere), and the core as constructed over that memory and an idle bus.
\<close>

definition example_common :: "nat common" where
  "example_common =
     \<lparr> MODULE_PRIMARY_PROCESSOR = 1,
       MESSAGE_REQUEST_CPU_MODESWITCH = 1,
       MESSAGE_GLOBAL_CPU_MODESWITCH = 2,
       MESSAGE_GLOBAL_LOCK_BIOS_MEM_REGION = 3 \<rparr>"

fun example_bytes :: "(uint32 \<times> uint8) list \<Rightarrow> uint32 \<Rightarrow> uint8" where
  "example_bytes [] a = 0"
| "example_bytes ((a', b) # bs) a = (if a = a' then b else example_bytes bs a)"

definition example_core :: "(uint32 \<times> uint8) list \<Rightarrow> nat CpuCore" where
  "example_core bs =
     New80386CPU example_common \<lparr>sent = []\<rparr> \<lparr>memory = example_bytes bs, accesses = []\<rparr>"

text \<open>
  A short conditional jump at \<open>CS:IP = 0:0x200\<close>: opcode, displacement byte and
  the value of \<open>ZF\<close>.
\<close>

definition jcc_core :: "uint8 \<Rightarrow> uint8 \<Rightarrow> uint16 \<Rightarrow> nat CpuCore" where
  "jcc_core opcode disp z =
     (example_core [(0x200, opcode), (0x201, disp)])
       \<lparr>registers := (registers (example_core [(0x200, opcode), (0x201, disp)]))
          \<lparr>IP := 0x200, ZF := z\<rparr>\<rparr>"

text \<open>\<open>87 D8\<close> (XCHG AX, BX) at \<open>0:0x100\<close> with \<open>AX = 1\<close> and \<open>BX = 2\<close>.\<close>

definition xchg_core :: "nat CpuCore" where
  "xchg_core =
     (example_core [(0x100, 0x87), (0x101, 0xD8)])
       \<lparr>registers := (registers (example_core [(0x100, 0x87), (0x101, 0xD8)]))
          \<lparr>IP := 0x100, AX := 1, BX := 2\<rparr>\<rparr>"

text \<open>
  \<open>3C 05\<close> (CMP AL, 5) at \<open>0:0x100\<close> with \<open>AL = 5\<close>, the opcode byte latched,
  and a given last-executed address.
\<close>

definition cmp_core :: "uint32 \<Rightarrow> nat CpuCore" where
  "cmp_core l =
     (example_core [(0x100, 0x3C), (0x101, 0x05)])
       \<lparr>registers := (registers (example_core [(0x100, 0x3C), (0x101, 0x05)]))
          \<lparr>IP := 0x100, AL := 5\<rparr>,
        lastExecutedInstructionPointer := l,
        currentByteAtCodePointer := 0x3C\<rparr>"

text \<open>A dispatcher that runs the CMP handler and reports status 0.\<close>

definition route_cmp :: "nat CpuCore \<Rightarrow> error + (int \<times> nat CpuCore)" where
  "route_cmp core =
     (case INSTR_CMP core of
        Inl e \<Rightarrow> Inl e
      | Inr core' \<Rightarrow> Inr (0, core'))"

text \<open>The constructed core with a given value in \<open>CR0\<close>.\<close>

definition cr0_core :: "uint32 \<Rightarrow> nat CpuCore" where
  "cr0_core v = (example_core [])\<lparr>flags := (flags (example_core []))\<lparr>CR0 := v\<rparr>\<rparr>"

text \<open>A register-direct ModR/M byte (\<open>D8\<close>: mod 3, reg 3, rm 0) and an address-mode
  function that is never reached with it.\<close>

definition modrm_D8 :: ModRm where
  "modrm_D8 = \<lparr>mod' = 3, reg = 3, rm = 0\<rparr>"

definition no_addressMode16 :: "nat addressMode16" where
  "no_addressMode16 modrm core = Inl Panic"

section \<open>Evaluation rules and auxiliary facts\<close>

lemmas example_state_defs =
  example_core_def New80386CPU_def example_common_def

lemmas handler_step_defs =
  GetCurrentCodePointer_def coreReadAddr8_def ReadAddr8_def
  controllerSetIP_def SetIP_def GetIP_def Let_def

text \<open>What the two address functions compute: the 16-bit sum, widened.\<close>

lemma BuildAddress_unat:
  "unat (BuildAddress segment address) = (unat segment * 16 + unat address) mod 2 ^ 16"
proof -
  have "unat (ucast (push_bit 4 segment + address) :: uint32) = unat (push_bit 4 segment + address)"
    by (simp add: unsigned_ucast_eq take_bit_nat_eq_self_iff)
      (rule order_less_trans [OF unsigned_less], simp)
  also have "\<dots> = (unat segment * 16 + unat address) mod 2 ^ 16"
    by (simp add: unat_word_ariths push_bit_eq_mult mod_simps)
  finally show ?thesis
    by (simp add: BuildAddress_def)
qed

lemma GetCurrentCodePointer_BuildAddress:
  "GetCurrentCodePointer core = BuildAddress (CS (registers core)) (IP (registers core))"
  by (simp add: GetCurrentCodePointer_def BuildAddress_def)

text \<open>The bit helpers as truth values, and the parity loop unrolled.\<close>

lemma drop_bit_and_one: "drop_bit n (x :: uint8) AND 1 = of_bool (bit x n)"
  by (simp add: and_one_eq bit_iff_odd_drop_bit of_bool_odd_eq_mod_2 [symmetric])

lemma getBitValue_of_bool: "(ucast (getBitValue x i) :: uint16) = of_bool (bit x (unat i))"
  by (simp add: getBitValue_def drop_bit_and_one)

lemma getMSB_of_bool: "(ucast (getMSB x) :: uint16) = of_bool (bit x 7)"
  by (simp add: getMSB_def drop_bit_and_one)

lemma test_al_parity_unfold:
  "test_al_parity tmp 0 pf =
     (((((((pf XOR of_bool (bit tmp 0)) XOR of_bool (bit tmp 1)) XOR of_bool (bit tmp 2))
        XOR of_bool (bit tmp 3)) XOR of_bool (bit tmp 4)) XOR of_bool (bit tmp 5))
        XOR of_bool (bit tmp 6)) XOR of_bool (bit tmp 7)"
  by (simp add: getBitValue_of_bool split del: split_of_bool)

lemma set_bits_uint8: "{n. bit (r :: uint8) n} = set (filter (bit r) [0..<8])"
  by (auto dest: bit_imp_le_length)

lemma card_set_bits_uint8: "card {n. bit (r :: uint8) n} = length (filter (bit r) [0..<8])"
  unfolding set_bits_uint8 by (rule distinct_card) simp

lemma upt_0_8: "[0..<8] = [0, 1, 2, 3, 4, 5, 6, 7 :: nat]"
  by (simp add: upt_rec)

lemma xor_chain_parity:
  "((((((((1 XOR of_bool b0) XOR of_bool b1) XOR of_bool b2) XOR of_bool b3)
       XOR of_bool b4) XOR of_bool b5) XOR of_bool b6) XOR of_bool b7 :: uint16)
   = of_bool (even (length (filter id [b0, b1, b2, b3, b4, b5, b6, b7])))"
  by (cases b0; cases b1; cases b2; cases b3; cases b4; cases b5; cases b6; cases b7) simp_all

lemma test_al_parity_card:
  "test_al_parity tmp 0 1 = of_bool (even (card {n. bit tmp n}))"
proof -
  have "length (filter (bit tmp) [0..<8])
      = length (filter id [bit tmp 0, bit tmp 1, bit tmp 2, bit tmp 3,
                           bit tmp 4, bit tmp 5, bit tmp 6, bit tmp 7])"
    unfolding upt_0_8 by simp
  then show ?thesis
    unfolding test_al_parity_unfold card_set_bits_uint8 xor_chain_parity by simp
qed

section \<open>Address generation and reset\<close>

text \<open>
  C1.  Claimed: in real mode the linear address of \<open>segment:offset\<close> is
  \<open>(segment * 16 + offset) mod 2^20\<close>, so that the fetch address after reset,
  \<open>CS = 0xF000\<close> and \<open>IP = 0xFFF0\<close>, is \<open>0xFFFF0\<close>.  On the code:
  \<open>GetCurrentCodePointer\<close> and \<open>BuildAddress\<close> shift and add in 16 bits before
  widening, so after reset the code pointer is \<open>0xFFF0\<close>, and so is
  \<open>BuildAddress 0xF000 0xFFF0\<close>.
\<close>

theorem reset_vector_code_pointer_16bit:
  "GetCurrentCodePointer (Reset example_common (example_core [])) = 0xFFF0
   \<and> BuildAddress 0xF000 0xFFF0 = 0xFFF0"
  by (simp add: GetCurrentCodePointer_def Reset_def BuildAddress_def example_state_defs Let_def)

text \<open>
  C9.  \<open>Reset\<close> assigns \<open>CS = 0xF000\<close> and \<open>IP = 0xFFF0\<close> and sends exactly
  one bus message, the lock-BIOS-region message with an empty payload.
\<close>

theorem Reset_vector_and_lock_message:
  "CS (registers (Reset k core)) = 0xF000
   \<and> IP (registers (Reset k core)) = 0xFFF0
   \<and> sent (bus (Reset k core)) =
       sent (bus core) @ [\<lparr>Subject = MESSAGE_GLOBAL_LOCK_BIOS_MEM_REGION k, Data = []\<rparr>]"
  by (simp add: Reset_def Let_def SendMessage_def)

section \<open>Bus messages and the mode switch\<close>

text \<open>
  C10.  A bus message whose subject is not the mode-switch request leaves the whole
  core as it was: registers, flags, mode, \<open>CR0\<close>, instruction pointers, and the
  bus, to which nothing is sent.
\<close>

theorem OnReceiveMessage_other_subject:
  "Subject message \<noteq> MESSAGE_REQUEST_CPU_MODESWITCH k \<Longrightarrow>
   OnReceiveMessage k core message = Inr core"
  by (simp add: OnReceiveMessage_def)

theorem OnReceiveMessage_other_subject_witness:
  "Subject \<lparr>Subject = 2, Data = [1]\<rparr> \<noteq> MESSAGE_REQUEST_CPU_MODESWITCH example_common
   \<and> OnReceiveMessage example_common (example_core []) \<lparr>Subject = 2, Data = [1]\<rparr>
       = Inr (example_core [])"
  using OnReceiveMessage_other_subject
    [of "\<lparr>Subject = 2, Data = [1]\<rparr>" example_common "example_core []"]
  by (simp add: example_common_def)

text \<open>
  C4.  Claimed: a mode-switch request with a one-byte target mode sets the mode,
  sets or clears the corresponding \<open>CR0\<close> bits and broadcasts the mode-switch
  announcement with the new mode byte.  The code never assigns \<open>CR0\<close>: from
  \<open>CR0 = 0\<close> a switch to mode 1 and a switch to mode 0 both leave every bit clear,
  and from \<open>CR0 = 0xFFFFFFFF\<close> both leave every bit set, while the mode follows
  the request.
\<close>

theorem mode_switch_CR0_counterexample:
  "mode (projr (OnReceiveMessage example_common (cr0_core 0)
      \<lparr>Subject = MESSAGE_REQUEST_CPU_MODESWITCH example_common, Data = [1]\<rparr>)) = 1
   \<and> CR0 (flags (projr (OnReceiveMessage example_common (cr0_core 0)
      \<lparr>Subject = MESSAGE_REQUEST_CPU_MODESWITCH example_common, Data = [1]\<rparr>))) = 0
   \<and> mode (projr (OnReceiveMessage example_common (cr0_core 0)
      \<lparr>Subject = MESSAGE_REQUEST_CPU_MODESWITCH example_common, Data = [0]\<rparr>)) = 0
   \<and> CR0 (flags (projr (OnReceiveMessage example_common (cr0_core 0)
      \<lparr>Subject = MESSAGE_REQUEST_CPU_MODESWITCH example_common, Data = [0]\<rparr>))) = 0
   \<and> mode (projr (OnReceiveMessage example_common (cr0_core 0xFFFFFFFF)
      \<lparr>Subject = MESSAGE_REQUEST_CPU_MODESWITCH example_common, Data = [1]\<rparr>)) = 1
   \<and> CR0 (flags (projr (OnReceiveMessage example_common (cr0_core 0xFFFFFFFF)
      \<lparr>Subject = MESSAGE_REQUEST_CPU_MODESWITCH example_common, Data = [1]\<rparr>))) = 0xFFFFFFFF
   \<and> mode (projr (OnReceiveMessage example_common (cr0_core 0xFFFFFFFF)
      \<lparr>Subject = MESSAGE_REQUEST_CPU_MODESWITCH example_common, Data = [0]\<rparr>)) = 0
   \<and> CR0 (flags (projr (OnReceiveMessage example_common (cr0_core 0xFFFFFFFF)
      \<lparr>Subject = MESSAGE_REQUEST_CPU_MODESWITCH example_common, Data = [0]\<rparr>))) = 0xFFFFFFFF"
  by (simp add: OnReceiveMessage_def EnterMode_def SendMessage_def cr0_core_def
      example_state_defs Let_def)

text \<open>
  C4, as the code has it.  A mode-switch request carrying one byte sets the mode
  to that byte and appends to the bus the mode-switch announcement whose payload
  is that byte; nothing else of the core changes, \<open>CR0\<close> included.  This holds
  for every byte and every state.
\<close>

theorem OnReceiveMessage_mode_switch:
  "Subject message = MESSAGE_REQUEST_CPU_MODESWITCH k \<Longrightarrow> Data message = [m] \<Longrightarrow>
   OnReceiveMessage k core message =
     Inr (core\<lparr>mode := m,
               bus := (bus core)\<lparr>sent := sent (bus core) @
                 [\<lparr>Subject = MESSAGE_GLOBAL_CPU_MODESWITCH k, Data = [m]\<rparr>]\<rparr>\<rparr>)"
  by (simp add: OnReceiveMessage_def EnterMode_def Let_def SendMessage_def)

theorem OnReceiveMessage_mode_switch_witness:
  "Subject \<lparr>Subject = 1, Data = [1]\<rparr> = MESSAGE_REQUEST_CPU_MODESWITCH example_common
   \<and> Data \<lparr>Subject = 1 :: nat, Data = [1]\<rparr> = [1]
   \<and> OnReceiveMessage example_common (cr0_core 0) \<lparr>Subject = 1, Data = [1]\<rparr> =
       Inr ((cr0_core 0)\<lparr>mode := 1, bus := \<lparr>sent = [\<lparr>Subject = 2, Data = [1]\<rparr>]\<rparr>\<rparr>)
   \<and> CR0 (flags ((cr0_core 0)\<lparr>mode := 1, bus := \<lparr>sent = [\<lparr>Subject = 2, Data = [1]\<rparr>]\<rparr>\<rparr>)) = 0"
  using OnReceiveMessage_mode_switch
    [of "\<lparr>Subject = 1, Data = [1]\<rparr>" example_common 1 "cr0_core 0"]
  by (simp add: example_state_defs cr0_core_def)

section \<open>Step driver\<close>

text \<open>
  C7.  At entry to \<open>Step\<close>, if the address of the instruction about to run
  (\<open>GetCurrentCodePointer\<close>) equals the recorded address of the previous one, the
  result is the fatal "CPU appears to be in a loop" error whatever the dispatcher
  is, so no handler runs.  Otherwise, when the dispatcher returns with status 0
  and has left the snapshot field alone, the snapshot taken at entry becomes the
  last-executed address of the core the dispatcher returned.
\<close>

theorem Step_loop_check:
  "(GetCurrentCodePointer core = lastExecutedInstructionPointer core \<longrightarrow>
      Step routeInstruction core =
        Inl (Fatal ''CPU appears to be in a loop! Did you forget to increment the IP register?''))
   \<and> (GetCurrentCodePointer core \<noteq> lastExecutedInstructionPointer core \<longrightarrow>
        routeInstruction (core\<lparr>currentlyExecutingInstructionPointer := GetCurrentCodePointer core\<rparr>)
          = Inr (0, core2) \<longrightarrow>
        currentlyExecutingInstructionPointer core2 = GetCurrentCodePointer core \<longrightarrow>
      Step routeInstruction core =
        Inr (core2\<lparr>lastExecutedInstructionPointer := GetCurrentCodePointer core\<rparr>))"
  by (simp add: Step_def Let_def)

theorem Step_loop_check_witness:
  "GetCurrentCodePointer (cmp_core 0x100) = lastExecutedInstructionPointer (cmp_core 0x100)
   \<and> Step route_cmp (cmp_core 0x100) =
        Inl (Fatal ''CPU appears to be in a loop! Did you forget to increment the IP register?'')
   \<and> GetCurrentCodePointer (cmp_core 0xFE) \<noteq> lastExecutedInstructionPointer (cmp_core 0xFE)
   \<and> IP (registers (projr (Step route_cmp (cmp_core 0xFE)))) = 0x102
   \<and> ZF (registers (projr (Step route_cmp (cmp_core 0xFE)))) = 1
   \<and> lastExecutedInstructionPointer (projr (Step route_cmp (cmp_core 0xFE))) = 0x100"
proof -
  have a: "GetCurrentCodePointer (cmp_core 0x100) = lastExecutedInstructionPointer (cmp_core 0x100)"
    by (simp add: cmp_core_def example_state_defs handler_step_defs)
  have b: "GetCurrentCodePointer (cmp_core 0xFE) \<noteq> lastExecutedInstructionPointer (cmp_core 0xFE)"
    by (simp add: cmp_core_def example_state_defs handler_step_defs)
  have g: "GetCurrentCodePointer (cmp_core 0xFE) = 0x100"
    by (simp add: cmp_core_def example_state_defs handler_step_defs)
  define c2 where "c2 = (cmp_core 0xFE)
    \<lparr>currentlyExecutingInstructionPointer := 0x100,
     memoryAccessController := (memoryAccessController (cmp_core 0xFE))\<lparr>accesses := [Read8 0x101]\<rparr>,
     registers := (registers (cmp_core 0xFE))\<lparr>ZF := 1, CF := 0, IP := 0x102\<rparr>\<rparr>"
  have r: "route_cmp ((cmp_core 0xFE)
             \<lparr>currentlyExecutingInstructionPointer := GetCurrentCodePointer (cmp_core 0xFE)\<rparr>)
           = Inr (0, c2)"
    unfolding g
    by (simp add: route_cmp_def INSTR_CMP_def cmp_core_def c2_def example_state_defs handler_step_defs)
  have s: "currentlyExecutingInstructionPointer c2 = GetCurrentCodePointer (cmp_core 0xFE)"
    unfolding g by (simp add: c2_def)
  from Step_loop_check [of "cmp_core 0x100" route_cmp] a
  have 1: "Step route_cmp (cmp_core 0x100) =
        Inl (Fatal ''CPU appears to be in a loop! Did you forget to increment the IP register?'')"
    by blast
  from Step_loop_check [of "cmp_core 0xFE" route_cmp c2] b r s
  have 2: "Step route_cmp (cmp_core 0xFE) =
        Inr (c2\<lparr>lastExecutedInstructionPointer := GetCurrentCodePointer (cmp_core 0xFE)\<rparr>)"
    by blast
  show ?thesis
    using a b by (simp add: 1 2 c2_def g)
qed

section \<open>ModR/M operand access\<close>

text \<open>
  C8.  With \<open>mod = 3\<close> and a register index inside the tables, the four operand
  functions succeed without touching the memory controller: the read functions
  return a pointer and the very same core, and the write functions return a core
  that differs from the given one in the register file only, so memory contents
  and access trace are the same.  The address-mode function is arbitrary and is
  not consulted.
\<close>

theorem register_direct_no_memory_access:
  assumes "mod' modrm = 3"
    and "unat (rm modrm) < length (registers8Bit (registers core))"
    and "unat (rm modrm) < length (registers16Bit (registers core))"
  shows "(\<exists>p. readRm8 getAddressMode16 core modrm = Inr (p, core))
    \<and> (\<exists>p. readRm16 getAddressMode16 core modrm = Inr (p, core))
    \<and> (\<exists>core'. writeRm8 getAddressMode16 core modrm v8 = Inr core'
          \<and> memoryAccessController core' = memoryAccessController core
          \<and> core'\<lparr>registers := registers core\<rparr> = core)
    \<and> (\<exists>core'. writeRm16 getAddressMode16 core modrm v16 = Inr core'
          \<and> memoryAccessController core' = memoryAccessController core
          \<and> core'\<lparr>registers := registers core\<rparr> = core)"
  using assms
  by (simp add: readRm8_def readRm16_def writeRm8_def writeRm16_def index_slice_def)

theorem register_direct_no_memory_access_witness:
  "mod' modrm_D8 = 3
   \<and> unat (rm modrm_D8) < length (registers8Bit (registers (example_core [])))
   \<and> unat (rm modrm_D8) < length (registers16Bit (registers (example_core [])))
   \<and> readRm8 no_addressMode16 (example_core []) modrm_D8 = Inr (Field8 F_AL, example_core [])
   \<and> readRm16 no_addressMode16 (example_core []) modrm_D8 = Inr (Field16 F_AX, example_core [])
   \<and> accesses (memoryAccessController (projr
        (writeRm8 no_addressMode16 (example_core []) modrm_D8 (Field8 F_BL)))) = []
   \<and> accesses (memoryAccessController (projr
        (writeRm16 no_addressMode16 (example_core []) modrm_D8 (Field16 F_BX)))) = []"
proof -
  have h1: "mod' modrm_D8 = 3"
    by (simp add: modrm_D8_def)
  have h2: "unat (rm modrm_D8) < length (registers8Bit (registers (example_core [])))"
    by (simp add: modrm_D8_def example_state_defs)
  have h3: "unat (rm modrm_D8) < length (registers16Bit (registers (example_core [])))"
    by (simp add: modrm_D8_def example_state_defs)
  have e: "accesses (memoryAccessController (example_core [])) = []"
    by (simp add: example_state_defs)
  from register_direct_no_memory_access
    [OF h1 h2 h3, of no_addressMode16 "Field8 F_BL" "Field16 F_BX"]
  obtain p8 p16 c8 c16 where
    r8: "readRm8 no_addressMode16 (example_core []) modrm_D8 = Inr (p8, example_core [])" and
    r16: "readRm16 no_addressMode16 (example_core []) modrm_D8 = Inr (p16, example_core [])" and
    w8: "writeRm8 no_addressMode16 (example_core []) modrm_D8 (Field8 F_BL) = Inr c8"
        "memoryAccessController c8 = memoryAccessController (example_core [])" and
    w16: "writeRm16 no_addressMode16 (example_core []) modrm_D8 (Field16 F_BX) = Inr c16"
        "memoryAccessController c16 = memoryAccessController (example_core [])"
    by blast
  have p8: "p8 = Field8 F_AL"
    using r8 by (simp add: readRm8_def index_slice_def modrm_D8_def example_state_defs)
  have p16: "p16 = Field16 F_AX"
    using r16 by (simp add: readRm16_def index_slice_def modrm_D8_def example_state_defs)
  show ?thesis
    using h1 h2 h3 r8 r16 w8 w16 e by (simp add: p8 p16)
qed

section \<open>Opcode handlers\<close>

text \<open>
  C2.  Claimed: \<open>74\<close> (JZ) branches exactly when \<open>ZF\<close> is set and \<open>75\<close> (JNZ)
  exactly when it is clear, to \<open>IP + 2\<close> plus the sign-extended displacement, so
  that \<open>74 02\<close> at \<open>IP = 0x200\<close> gives \<open>0x204\<close> with \<open>ZF = 1\<close> and \<open>0x202\<close>
  with \<open>ZF = 0\<close>.  On the code: \<open>INSTR_JZ_SHORT_REL8\<close> branches when \<open>ZF\<close> is 0
  and \<open>INSTR_JNZ_SHORT_REL8\<close> when it is not 0, and the displacement byte is
  zero-extended, so \<open>74 FE\<close> taken from \<open>0x200\<close> lands on \<open>0x300\<close>.
\<close>

theorem short_jumps_at_0x200:
  "IP (registers (INSTR_JZ_SHORT_REL8 (jcc_core 0x74 0x02 1))) = 0x202
   \<and> IP (registers (INSTR_JZ_SHORT_REL8 (jcc_core 0x74 0x02 0))) = 0x204
   \<and> IP (registers (INSTR_JNZ_SHORT_REL8 (jcc_core 0x75 0x02 1))) = 0x204
   \<and> IP (registers (INSTR_JNZ_SHORT_REL8 (jcc_core 0x75 0x02 0))) = 0x202
   \<and> IP (registers (INSTR_JZ_SHORT_REL8 (jcc_core 0x74 0xFE 0))) = 0x300"
  by (simp add: INSTR_JZ_SHORT_REL8_def INSTR_JNZ_SHORT_REL8_def jcc_core_def
      example_state_defs handler_step_defs)

text \<open>
  C3.  Claimed: \<open>87 /r\<close> swaps its two 16-bit operands, so \<open>87 D8\<close> from
  \<open>AX = 1\<close>, \<open>BX = 2\<close> leaves \<open>AX = 2\<close>, \<open>BX = 1\<close>.  On the code: the handler
  exchanges two local copies; the core it returns is the given one with \<open>IP\<close>
  advanced by 2 and one byte read recorded, so \<open>AX\<close> is still 1 and \<open>BX\<close> still 2.
\<close>

theorem XCHG_AX_BX_unchanged:
  "INSTR_XCHG consumeModRm xchg_core =
     Inr (xchg_core
       \<lparr>registers := (registers xchg_core)\<lparr>IP := 0x102\<rparr>,
        memoryAccessController :=
          (memoryAccessController xchg_core)\<lparr>accesses := [Read8 0x101]\<rparr>\<rparr>)
   \<and> AX (registers xchg_core) = 1
   \<and> BX (registers xchg_core) = 2"
  by (simp add: INSTR_XCHG_def consumeModRm_def xchg_core_def index_slice_def
      example_state_defs handler_step_defs)

text \<open>
  C5.  Running the CMP handler on opcode \<open>3C\<close> succeeds, and afterwards, with
  \<open>AL\<close> the register before and \<open>imm8\<close> the byte after the opcode: \<open>ZF = 1\<close>
  exactly when \<open>AL = imm8\<close>; \<open>CF = 1\<close> exactly when \<open>AL < imm8\<close> as unsigned
  bytes; \<open>ZF = 0\<close> and \<open>CF = 0\<close> together exactly when \<open>AL > imm8\<close>.
\<close>

theorem CMP_AL_imm8_flags:
  "currentByteAtCodePointer core = 0x3C \<Longrightarrow>
   \<exists>core'. INSTR_CMP core = Inr core'
     \<and> (ZF (registers core') = 1 \<longleftrightarrow>
          AL (registers core) = memory (memoryAccessController core) (GetCurrentCodePointer core + 1))
     \<and> (CF (registers core') = 1 \<longleftrightarrow>
          AL (registers core) < memory (memoryAccessController core) (GetCurrentCodePointer core + 1))
     \<and> (ZF (registers core') = 0 \<and> CF (registers core') = 0 \<longleftrightarrow>
          AL (registers core) > memory (memoryAccessController core) (GetCurrentCodePointer core + 1))"
  by (auto simp add: INSTR_CMP_def coreReadAddr8_def ReadAddr8_def controllerSetIP_def
      SetIP_def GetIP_def Let_def)

theorem CMP_AL_imm8_flags_witness:
  "currentByteAtCodePointer (cmp_core 0) = 0x3C
   \<and> AL (registers (cmp_core 0)) = 5
   \<and> memory (memoryAccessController (cmp_core 0)) (GetCurrentCodePointer (cmp_core 0) + 1) = 5
   \<and> ZF (registers (projr (INSTR_CMP (cmp_core 0)))) = 1
   \<and> CF (registers (projr (INSTR_CMP (cmp_core 0)))) \<noteq> 1"
proof -
  have h: "currentByteAtCodePointer (cmp_core 0) = 0x3C"
    by (simp add: cmp_core_def)
  have al: "AL (registers (cmp_core 0)) = 5"
    by (simp add: cmp_core_def)
  have imm: "memory (memoryAccessController (cmp_core 0)) (GetCurrentCodePointer (cmp_core 0) + 1) = 5"
    by (simp add: cmp_core_def example_state_defs handler_step_defs)
  from CMP_AL_imm8_flags [OF h] obtain core' where
    r: "INSTR_CMP (cmp_core 0) = Inr core'" and
    z: "ZF (registers core') = 1 \<longleftrightarrow>
          AL (registers (cmp_core 0)) =
            memory (memoryAccessController (cmp_core 0)) (GetCurrentCodePointer (cmp_core 0) + 1)" and
    c: "CF (registers core') = 1 \<longleftrightarrow>
          AL (registers (cmp_core 0)) <
            memory (memoryAccessController (cmp_core 0)) (GetCurrentCodePointer (cmp_core 0) + 1)"
    by blast
  from z have z': "ZF (registers core') = 1"
    unfolding al imm by simp
  from c have c': "CF (registers core') \<noteq> 1"
    unfolding al imm by simp
  show ?thesis
    using h al imm z' c' by (simp add: r)
qed

text \<open>
  C6.  The TEST handler computes \<open>AL AND imm8\<close>, with \<open>imm8\<close> the byte after the
  opcode, and sets \<open>SF\<close> to bit 7 of the result, \<open>ZF\<close> to 1 exactly when the
  result is zero (else 0), \<open>PF\<close> to 1 exactly when the result has an even number
  of set bits (else 0), \<open>CF\<close> and \<open>OF\<close> to 0; \<open>AL\<close> keeps its value.
\<close>

theorem TEST_AL_imm8_flags:
  "SF (registers (INSTR_TEST_AL core)) =
     of_bool (bit (AL (registers core) AND
                   memory (memoryAccessController core) (GetCurrentCodePointer core + 1)) 7)
   \<and> ZF (registers (INSTR_TEST_AL core)) =
     of_bool (AL (registers core) AND
              memory (memoryAccessController core) (GetCurrentCodePointer core + 1) = 0)
   \<and> PF (registers (INSTR_TEST_AL core)) =
     of_bool (even (card {n. bit (AL (registers core) AND
                   memory (memoryAccessController core) (GetCurrentCodePointer core + 1)) n}))
   \<and> CF (registers (INSTR_TEST_AL core)) = 0
   \<and> OF (registers (INSTR_TEST_AL core)) = 0
   \<and> AL (registers (INSTR_TEST_AL core)) = AL (registers core)"
proof -
  define imm where "imm = memory (memoryAccessController core) (GetCurrentCodePointer core + 1)"
  have comm: "imm AND AL (registers core) = AL (registers core) AND imm"
    by (simp add: and.commute)
  have sf: "SF (registers (INSTR_TEST_AL core)) = of_bool (bit (AL (registers core) AND imm) 7)"
    by (simp add: INSTR_TEST_AL_def coreReadAddr8_def ReadAddr8_def controllerSetIP_def
        SetIP_def GetIP_def Let_def getMSB_of_bool imm_def [symmetric] comm
        split del: split_of_bool)
  have zf: "ZF (registers (INSTR_TEST_AL core)) = of_bool (AL (registers core) AND imm = 0)"
    by (simp add: INSTR_TEST_AL_def coreReadAddr8_def ReadAddr8_def controllerSetIP_def
        SetIP_def GetIP_def Let_def imm_def [symmetric] comm)
  have pf: "PF (registers (INSTR_TEST_AL core)) =
      of_bool (even (card {n. bit (AL (registers core) AND imm) n}))"
    by (simp add: INSTR_TEST_AL_def coreReadAddr8_def ReadAddr8_def controllerSetIP_def
        SetIP_def GetIP_def Let_def test_al_parity_card imm_def [symmetric] comm
        del: test_al_parity.simps split del: split_of_bool)
  have rest: "CF (registers (INSTR_TEST_AL core)) = 0
      \<and> OF (registers (INSTR_TEST_AL core)) = 0
      \<and> AL (registers (INSTR_TEST_AL core)) = AL (registers core)"
    by (simp add: INSTR_TEST_AL_def coreReadAddr8_def ReadAddr8_def controllerSetIP_def
        SetIP_def GetIP_def Let_def)
  from sf zf pf rest show ?thesis
    unfolding imm_def by blast
qed

end
